theory Spec2Isabelle
  imports Main "HOL-Library.FSet" "HOL-Library.Multiset" "HOL-Library.Char_ord"
    "HOL-Library.List_Lexorder"
begin

section \<open>Python values and exceptions\<close>

text \<open>
  The exceptions that the two modules can raise or let through. \<open>StopIteration\<close> (with
  its subclasses, which \<open>except StopIteration\<close> catches as well) is the abort signal of a
  completion provider; \<open>OtherError\<close> stands for any further exception class a provider
  may raise, with its name.
\<close>

datatype exn =
    StopIteration
  | UnboundLocalError
  | ValueError
  | TypeError
  | NameError
  | AttributeError
  | SyntaxError string
  | OtherError string

text \<open>
  The Python values that \<open>Completer.complete\<close> inspects. A candidate is a \<open>str\<close>; a
  \<open>char\<close> stands for one code point, compared by its code as Python does. \<open>VSet\<close> is a
  \<open>set\<close> of strings, \<open>VList\<close> and \<open>VTuple\<close> are a \<open>list\<close> and a \<open>tuple\<close> of strings.
\<close>

datatype val =
    VNone
  | VInt int
  | VStr string
  | VSet "string fset"
  | VList "string list"
  | VTuple "string list"

text \<open>
  What a provider returns: one of the values above, or a two-element \<open>list\<close> or \<open>tuple\<close>
  with arbitrary components (\<open>Seq2 a b\<close> is \<open>(a, b)\<close>). A two-element sequence of strings
  can be written both ways; every function below treats the two spellings alike.
\<close>

datatype out = Val val | Seq2 val val

text \<open>\<open>isinstance(v, abc.Sequence)\<close>: \<open>str\<close>, \<open>list\<close> and \<open>tuple\<close> are sequences; \<open>None\<close>,
  \<open>int\<close> and \<open>set\<close> are not.\<close>

fun is_Sequence :: "val \<Rightarrow> bool" where
  "is_Sequence (VStr s) = True"
| "is_Sequence (VList xs) = True"
| "is_Sequence (VTuple xs) = True"
| "is_Sequence v = False"

text \<open>\<open>res, lprefix = v\<close> for a sequence of strings: it must have exactly two elements
  (the elements of a \<open>str\<close> are its one-character strings), else \<open>ValueError\<close>.\<close>

fun two_of :: "val list \<Rightarrow> exn + val \<times> val" where
  "two_of [a, b] = Inr (a, b)"
| "two_of xs = Inl ValueError"

fun items :: "val \<Rightarrow> val list" where
  "items (VStr s) = map (\<lambda>c. VStr [c]) s"
| "items (VList xs) = map VStr xs"
| "items (VTuple xs) = map VStr xs"
| "items v = []"

text \<open>\<open>len(v)\<close>; \<open>None\<close> and \<open>int\<close> have no length.\<close>

fun py_len :: "val \<Rightarrow> exn + nat" where
  "py_len VNone = Inl TypeError"
| "py_len (VInt n) = Inl TypeError"
| "py_len (VStr s) = Inr (length s)"
| "py_len (VSet S) = Inr (fcard S)"
| "py_len (VList xs) = Inr (length xs)"
| "py_len (VTuple xs) = Inr (length xs)"

text \<open>\<open>sorted(v)\<close>: the elements in ascending order, every element as often as \<open>v\<close> holds
  it; \<open>None\<close> and \<open>int\<close> are not iterable.\<close>

fun py_sorted :: "val \<Rightarrow> exn + string list" where
  "py_sorted VNone = Inl TypeError"
| "py_sorted (VInt n) = Inl TypeError"
| "py_sorted (VStr s) = Inr (map (\<lambda>c. [c]) (sort s))"
| "py_sorted (VSet S) = Inr (sorted_list_of_fset S)"
| "py_sorted (VList xs) = Inr (sort xs)"
| "py_sorted (VTuple xs) = Inr (sort xs)"

section \<open>The completer (\<open>xonsh/completer.py\<close>)\<close>

text \<open>
  The execution context \<open>ctx\<close>: \<open>None\<close> (the default), a \<open>dict\<close> or a \<open>set\<close> of names.
  \<open>ctx = ctx or {}\<close> replaces a false value (\<open>None\<close>, an empty \<open>dict\<close>, an empty \<open>set\<close>) by
  an empty \<open>dict\<close>.
\<close>

datatype ctx = CtxNone | CtxDict "(string \<times> val) list" | CtxSet "string fset"

fun ctx_or_empty :: "ctx \<Rightarrow> ctx" where
  "ctx_or_empty CtxNone = CtxDict []"
| "ctx_or_empty (CtxDict kvs) = (if kvs = [] then CtxDict [] else CtxDict kvs)"
| "ctx_or_empty (CtxSet S) = (if S = {||} then CtxDict [] else CtxSet S)"

text \<open>
  A provider is called with \<open>(prefix, line, begidx, endidx, ctx)\<close>; it may have effects
  (on a world \<open>'w\<close>), and it returns a value or raises.
\<close>

type_synonym 'w provider =
  "string \<Rightarrow> string \<Rightarrow> int \<Rightarrow> int \<Rightarrow> ctx \<Rightarrow> 'w \<Rightarrow> (exn + out) \<times> 'w"

text \<open>Lines 44 to 48: how \<open>complete\<close> reads a provider's return value \<open>out\<close> into
  \<open>res\<close> and \<open>lprefix\<close>.\<close>

fun read_out :: "string \<Rightarrow> out \<Rightarrow> exn + val \<times> val" where
  "read_out prefix (Seq2 res lprefix) = Inr (res, lprefix)"
| "read_out prefix (Val v) =
     (if is_Sequence v then two_of (items v)
      else Inr (v, VInt (int (length prefix))))"

text \<open>
  The loop of \<open>complete\<close> over the registry's values. \<open>lp\<close> is the local variable
  \<open>lprefix\<close>: \<open>None\<close> while it is unbound. The result is \<open>(candidates, lprefix)\<close>.
\<close>

fun complete_loop ::
  "'w provider list \<Rightarrow> string \<Rightarrow> string \<Rightarrow> int \<Rightarrow> int \<Rightarrow> ctx \<Rightarrow> val option \<Rightarrow> 'w
     \<Rightarrow> (exn + val \<times> val) \<times> 'w" where
  "complete_loop [] prefix line begidx endidx ctx lp w =
     (case lp of
        None \<Rightarrow> (Inl UnboundLocalError, w)
      | Some lprefix \<Rightarrow> (Inr (VSet {||}, lprefix), w))"
| "complete_loop (func # funcs) prefix line begidx endidx ctx lp w =
     (case func prefix line begidx endidx ctx w of
        (Inl e, w') \<Rightarrow>
          (if e = StopIteration then (Inr (VSet {||}, VInt (int (length prefix))), w')
           else (Inl e, w'))
      | (Inr out, w') \<Rightarrow>
          (case read_out prefix out of
             Inl e \<Rightarrow> (Inl e, w')
           | Inr (res, lprefix) \<Rightarrow>
               (if res = VNone
                then complete_loop funcs prefix line begidx endidx ctx (Some lprefix) w'
                else (case py_len res of
                        Inl e \<Rightarrow> (Inl e, w')
                      | Inr n \<Rightarrow>
                          (if n \<noteq> 0
                           then (case py_sorted res of
                                   Inl e \<Rightarrow> (Inl e, w')
                                 | Inr xs \<Rightarrow> (Inr (VTuple xs, lprefix), w'))
                           else complete_loop funcs prefix line begidx endidx ctx
                                  (Some lprefix) w')))))"

text \<open>The registry \<open>builtins.__xonsh_completers__\<close> is an insertion-ordered mapping from
  provider name to provider; \<open>.values()\<close> lists the providers in that order.\<close>

type_synonym 'w registry = "(string \<times> 'w provider) list"

definition complete ::
  "'w registry \<Rightarrow> string \<Rightarrow> string \<Rightarrow> int \<Rightarrow> int \<Rightarrow> ctx \<Rightarrow> 'w \<Rightarrow> (exn + val \<times> val) \<times> 'w" where
  "complete registry prefix line begidx endidx ctx w =
     complete_loop (map snd registry) prefix line begidx endidx (ctx_or_empty ctx) None w"

subsection \<open>Notions for the statements about \<open>complete\<close>\<close>

text \<open>
  The providers before the one that decides a call: \<open>all_empty\<close> runs them as the loop
  does and gives the binding of \<open>lprefix\<close> and the world after them when each returned,
  without raising, a value read as \<open>None\<close> or as an empty collection.
\<close>

fun all_empty ::
  "'w provider list \<Rightarrow> string \<Rightarrow> string \<Rightarrow> int \<Rightarrow> int \<Rightarrow> ctx \<Rightarrow> val option \<Rightarrow> 'w
     \<Rightarrow> (val option \<times> 'w) option" where
  "all_empty [] prefix line begidx endidx ctx lp w = Some (lp, w)"
| "all_empty (func # funcs) prefix line begidx endidx ctx lp w =
     (case func prefix line begidx endidx ctx w of
        (Inl e, w') \<Rightarrow> None
      | (Inr out, w') \<Rightarrow>
          (case read_out prefix out of
             Inl e \<Rightarrow> None
           | Inr (res, lprefix) \<Rightarrow>
               (if res = VNone \<or> py_len res = Inr 0
                then all_empty funcs prefix line begidx endidx ctx (Some lprefix) w'
                else None)))"

text \<open>The candidates that a collection holds, each as often as it holds it.\<close>

fun elements :: "val \<Rightarrow> string multiset" where
  "elements (VStr s) = mset (map (\<lambda>c. [c]) s)"
| "elements (VSet S) = mset_set (fset S)"
| "elements (VList xs) = mset xs"
| "elements (VTuple xs) = mset xs"
| "elements v = {#}"



text \<open>
  Providers for the examples: \<open>logged name r\<close> appends its name to the world, a log of
  the calls made, and then returns or raises \<open>r\<close>.
\<close>

definition logged :: "string \<Rightarrow> exn + out \<Rightarrow> string list provider" where
  "logged name r prefix line begidx endidx ctx w = (r, w @ [name])"

section \<open>Locations and the parser (\<open>xonsh/parser.py\<close>)\<close>

text \<open>\<open>'{0}'.format(n)\<close> for an \<open>int\<close>: its decimal digits, with a sign when negative.\<close>

fun show_nat :: "nat \<Rightarrow> string" where
  "show_nat n =
     (if n < 10 then [''0123456789'' ! n]
      else show_nat (n div 10) @ [''0123456789'' ! (n mod 10)])"

definition show_int :: "int \<Rightarrow> string" where
  "show_int i = (if i < 0 then CHR ''-'' # show_nat (nat (- i)) else show_nat (nat i))"

record Location =
  fname :: string
  lineno :: int
  column :: "int option"

text \<open>
  \<open>Location.__init__(self, fname, lineno, column=None)\<close>. Its second statement is
  \<open>self.lineno = line\<close>: the name read is \<open>line\<close>, while the line number is bound to the
  parameter \<open>lineno\<close>; the module binds no name \<open>line\<close> and there is no such builtin. The
  name is looked up here as the source writes it, and a name that is not in scope
  raises \<open>NameError\<close>.
\<close>

definition Location_init :: "string \<Rightarrow> int \<Rightarrow> int option \<Rightarrow> exn + Location" where
  "Location_init fname_arg lineno_arg column_arg =
     (case map_of [(''lineno'', lineno_arg)] ''line'' of
        None \<Rightarrow> Inl NameError
      | Some line \<Rightarrow> Inr \<lparr>fname = fname_arg, lineno = line, column = column_arg\<rparr>)"

text \<open>\<open>Location.__str__\<close>.\<close>

definition Location_str :: "Location \<Rightarrow> string" where
  "Location_str loc =
     (let s = fname loc @ '':'' @ show_int (lineno loc) in
      case column loc of
        None \<Rightarrow> s
      | Some c \<Rightarrow> s @ '':'' @ show_int c)"

text \<open>
  A token of the lexer (a PLY \<open>LexToken\<close>): its kind, its text, its line and its
  position in the input.
\<close>

record token =
  tok_type :: string
  tok_value :: string
  tok_lineno :: int
  tok_lexpos :: int

text \<open>
  The attributes of the \<open>Lexer\<close> object that the parser reads or writes. The class
  \<open>Lexer\<close> is in \<open>xonsh/lexer.py\<close>; an attribute is \<open>None\<close> here while it is not set.
\<close>

record lexer_state =
  lexer_fname :: "string option"
  lexer_filename :: "string option"
  lexer_lineno :: "int option"
  lexer_last :: "token option"

text \<open>
  The state of a \<open>Parser\<close>: its lexer, \<open>_scope_stack\<close> (a list of dictionaries from a name
  to whether it is a type, the last one the current scope) and \<open>_last_yielded_token\<close>.
\<close>

record parser_state =
  lexer :: lexer_state
  scope_stack :: "(string \<rightharpoonup> bool) list"
  last_yielded_token :: "token option"

text \<open>
  The grammar engine built by \<open>yacc.yacc\<close>: its \<open>parse(input, lexer, debug)\<close> runs the
  grammar actions and \<open>p_error\<close> of the parser, so it reads and writes the parser's state.
  The attributes of a \<open>Parser\<close> that hold an engine are a map from attribute name to
  engine; \<open>__init__\<close> stores the engine it builds as \<open>self.parser\<close> and binds no other.
\<close>

type_synonym 'tree engine = "string \<Rightarrow> int \<Rightarrow> parser_state \<Rightarrow> (exn + 'tree) \<times> parser_state"

definition init_engines :: "'tree engine \<Rightarrow> (string \<rightharpoonup> 'tree engine)" where
  "init_engines eng = [''parser'' \<mapsto> eng]"

text \<open>The state that the four assignments of \<open>parse\<close> leave.\<close>

definition parse_reset :: "parser_state \<Rightarrow> string \<Rightarrow> parser_state" where
  "parse_reset P filename =
     P\<lparr>lexer := (lexer P)\<lparr>lexer_filename := Some filename, lexer_lineno := Some 0\<rparr>,
       scope_stack := [Map.empty],
       last_yielded_token := None\<rparr>"

text \<open>\<open>Parser.parse(self, s, filename='<code>', debug_level=0)\<close>; reading an attribute
  that is not set raises \<open>AttributeError\<close>.\<close>

definition parse ::
  "(string \<rightharpoonup> 'tree engine) \<Rightarrow> parser_state \<Rightarrow> string \<Rightarrow> string \<Rightarrow> int
     \<Rightarrow> (exn + 'tree) \<times> parser_state" where
  "parse engines P s filename debug_level =
     (let P' = parse_reset P filename in
      case engines ''cparser'' of
        None \<Rightarrow> (Inl AttributeError, P')
      | Some cparser \<Rightarrow> cparser s debug_level P')"

text \<open>\<open>Parser.currloc(self, lineno, column=None)\<close>.\<close>

definition currloc :: "parser_state \<Rightarrow> int \<Rightarrow> int option \<Rightarrow> exn + Location" where
  "currloc P lineno_arg column_arg =
     (case lexer_fname (lexer P) of
        None \<Rightarrow> Inl AttributeError
      | Some f \<Rightarrow> Location_init f lineno_arg column_arg)"

text \<open>
  \<open>repr\<close> of a \<open>str\<close>, for code points below 256: double quotes when the string holds a
  single quote and no double quote, single quotes otherwise; the backslash, the quote
  in use, newline, carriage return and tab are escaped, every other character that is
  not printable is written as a backslash, \<open>x\<close> and two hexadecimal digits.
\<close>

definition printable :: "char \<Rightarrow> bool" where
  "printable c =
     (let n = (of_char c :: nat) in (32 \<le> n \<and> n < 127) \<or> (161 \<le> n \<and> n \<noteq> 173))"

definition escape :: "char \<Rightarrow> char \<Rightarrow> string" where
  "escape q c =
     (if c = CHR 0x5C then [CHR 0x5C, CHR 0x5C]
      else if c = q then [CHR 0x5C, q]
      else if c = CHR 0x0A then [CHR 0x5C, CHR ''n'']
      else if c = CHR 0x0D then [CHR 0x5C, CHR ''r'']
      else if c = CHR 0x09 then [CHR 0x5C, CHR ''t'']
      else if printable c then [c]
      else [CHR 0x5C, CHR ''x'', ''0123456789abcdef'' ! (of_char c div 16),
            ''0123456789abcdef'' ! (of_char c mod 16)])"

definition py_repr :: "string \<Rightarrow> string" where
  "py_repr s =
     (let q = (if CHR 0x27 \<in> set s \<and> CHR 0x22 \<notin> set s then CHR 0x22 else CHR 0x27)
      in [q] @ concat (map (escape q) s) @ [q])"

text \<open>
  The objects that \<open>_parse_error\<close> is given and what \<open>'{0}'.format\<close> writes for each: a
  \<open>str\<close> as it is, a \<open>Location\<close> through \<open>__str__\<close>, a one-element tuple of a \<open>str\<close> as its
  \<open>repr\<close>.
\<close>

datatype fmt_arg = AStr string | ALoc Location | ATuple1 string

fun py_format :: "fmt_arg \<Rightarrow> string" where
  "py_format (AStr s) = s"
| "py_format (ALoc loc) = Location_str loc"
| "py_format (ATuple1 s) = ''('' @ py_repr s @ '',)''"

text \<open>\<open>Parser._parse_error(self, msg, loc)\<close> always raises; the model gives the exception.\<close>

definition parse_error :: "fmt_arg \<Rightarrow> fmt_arg \<Rightarrow> exn" where
  "parse_error msg loc = SyntaxError (py_format loc @ '': '' @ py_format msg)"

text \<open>\<open>Parser._lexer_errfunc(self, msg, line, column)\<close>.\<close>

definition lexer_errfunc :: "parser_state \<Rightarrow> string \<Rightarrow> int \<Rightarrow> int option \<Rightarrow> exn" where
  "lexer_errfunc P msg line column_arg =
     (case currloc P line column_arg of
        Inl e \<Rightarrow> e
      | Inr loc \<Rightarrow> parse_error (AStr msg) (ALoc loc))"

text \<open>
  \<open>Parser.p_error(self, p)\<close>, which the engine calls with the offending token, or with
  \<open>None\<close> at the end of the input. \<open>token_col\<close> is the method \<open>Lexer.token_col\<close>. The
  assignment to \<open>msg\<close> ends in a comma, so \<open>msg\<close> is a one-element tuple. The arguments of
  \<open>_parse_error\<close> are evaluated before it is called.
\<close>

definition p_error :: "(token \<Rightarrow> int) \<Rightarrow> parser_state \<Rightarrow> token option \<Rightarrow> exn" where
  "p_error token_col P p =
     (case p of
        Some t \<Rightarrow>
          (let msg = ATuple1 (''code: '' @ tok_value t) in
           case currloc P (tok_lineno t) (Some (token_col t)) of
             Inl e \<Rightarrow> e
           | Inr loc \<Rightarrow> parse_error msg (ALoc loc))
      | None \<Rightarrow> parse_error (AStr ''no further code'') (AStr []))"

text \<open>The table \<open>Parser.precedence\<close>, from the lowest precedence to the highest.\<close>

definition precedence :: "(string \<times> string list) list" where
  "precedence =
     [(''left'', [''LOGIC_OR'']),
      (''left'', [''LOGIC_AND'']),
      (''left'', [''PIPE'']),
      (''left'', [''XOR'']),
      (''left'', [''AMPERSAND'']),
      (''left'', [''EQ'', ''NE'']),
      (''left'', [''GT'', ''GE'', ''LT'', ''LE'']),
      (''left'', [''RSHIFT'', ''LSHIFT'']),
      (''left'', [''PLUS'', ''MINUS'']),
      (''left'', [''TIMES'', ''DIVIDE'', ''MOD'']),
      (''left'', [''POW''])]"

section \<open>Properties of the completer\<close>

subsection \<open>Auxiliary facts\<close>

lemma complete_loop_skip:
  "all_empty ps prefix line b e ctx lp w = Some (lp', w') \<Longrightarrow>
   complete_loop (ps @ rest) prefix line b e ctx lp w =
     complete_loop rest prefix line b e ctx lp' w'"
proof (induction ps arbitrary: lp w)
  case Nil
  then show ?case by simp
next
  case (Cons f fs)
  then show ?case
    by (auto split: prod.splits sum.splits if_splits)
qed

lemma complete_skip:
  assumes "all_empty (map snd ps) prefix line b e (ctx_or_empty ctx) None w = Some (lp, w1)"
  shows "complete (ps @ (name, p) # qs) prefix line b e ctx w =
           complete_loop (p # map snd qs) prefix line b e (ctx_or_empty ctx) lp w1"
  using complete_loop_skip [OF assms] by (simp add: complete_def)

lemma sorted_singletons: "sorted ys \<Longrightarrow> sorted (map (\<lambda>c. [c]) ys)"
  by (induction ys) auto

lemma py_sorted_elements:
  "py_sorted res = Inr xs \<Longrightarrow> sorted xs \<and> mset xs = elements res"
proof (cases res)
  case (VStr s)
  assume "py_sorted res = Inr xs"
  with VStr have "xs = map (\<lambda>c. [c]) (sort s)" by auto
  then show ?thesis using VStr by (simp add: sorted_singletons)
next
  case (VSet S)
  assume "py_sorted res = Inr xs"
  with VSet have xs: "xs = sorted_list_of_set (fset S)"
    by (auto simp: sorted_list_of_fset.rep_eq)
  have "mset (sorted_list_of_set (fset S)) = mset_set (fset S)"
    by (metis mset_sorted_list_of_multiset sorted_list_of_mset_set)
  then show ?thesis using VSet xs by simp
qed auto

lemma py_len_sorted:
  "py_len res = Inr n \<Longrightarrow> \<exists>xs. py_sorted res = Inr xs \<and> length xs = n"
  by (cases res) (auto simp: sorted_list_of_fset.rep_eq fcard.rep_eq)

lemma two_of_length: "length vs \<noteq> 2 \<Longrightarrow> two_of vs = Inl ValueError"
  by (cases vs rule: two_of.cases) auto




lemma complete_fallback:
  assumes "all_empty (map snd registry) prefix line b e (ctx_or_empty ctx) None w =
             Some (Some lprefix, w')"
  shows "complete registry prefix line b e ctx w = (Inr (VSet {||}, lprefix), w')"
  using complete_loop_skip [OF assms, of "[]"] by (simp add: complete_def)

subsection \<open>The first provider with candidates decides\<close>

text \<open>
  C1, as the code has it. When the providers before \<open>p\<close> all give nothing and \<open>p\<close>
  returns a value read as a collection \<open>res\<close> that is not empty, with replacement length
  \<open>lprefix\<close>, then \<open>complete\<close> returns a tuple of the candidates of \<open>res\<close> in ascending
  order, each as often as \<open>res\<close> holds it (so without duplicates when \<open>res\<close> is a set),
  together with \<open>lprefix\<close>; the world is the one
  that \<open>p\<close> left, whatever the providers \<open>qs\<close> registered after \<open>p\<close> are, so none of them is
  called.
\<close>

theorem complete_first_nonempty:
  assumes "all_empty (map snd ps) prefix line b e (ctx_or_empty ctx) None w = Some (lp, w1)"
    and "p prefix line b e (ctx_or_empty ctx) w1 = (Inr out, w2)"
    and "read_out prefix out = Inr (res, lprefix)"
    and "res \<noteq> VNone" and "py_len res = Inr n" and "n \<noteq> 0"
  shows "\<exists>xs. complete (ps @ (name, p) # qs) prefix line b e ctx w =
                (Inr (VTuple xs, lprefix), w2)
           \<and> sorted xs \<and> mset xs = elements res
           \<and> (\<forall>S. res = VSet S \<longrightarrow> distinct xs)"
proof -
  from assms(5) obtain xs where xs: "py_sorted res = Inr xs"
    using py_len_sorted by blast
  have "complete (ps @ (name, p) # qs) prefix line b e ctx w =
          complete_loop (p # map snd qs) prefix line b e (ctx_or_empty ctx) lp w1"
    using assms(1) by (rule complete_skip)
  also have "\<dots> = (Inr (VTuple xs, lprefix), w2)"
    using assms(2-6) xs by simp
  finally have "complete (ps @ (name, p) # qs) prefix line b e ctx w =
                  (Inr (VTuple xs, lprefix), w2)" .
  moreover have "sorted xs \<and> mset xs = elements res"
    using xs by (rule py_sorted_elements)
  moreover have "\<forall>S. res = VSet S \<longrightarrow> distinct xs"
    using xs by (auto simp: sorted_list_of_fset.rep_eq)
  ultimately show ?thesis by blast
qed

theorem complete_first_nonempty_witness:
  "all_empty (map snd [(''a'', logged ''a'' (Inr (Val VNone)))]) ''f'' ''f'' 0 1
       (ctx_or_empty CtxNone) None [] = Some (Some (VInt 1), [''a''])
   \<and> logged ''b'' (Inr (Seq2 (VSet {|''foo'', ''bar''|}) (VInt 3))) ''f'' ''f'' 0 1
       (ctx_or_empty CtxNone) [''a'']
       = (Inr (Seq2 (VSet {|''foo'', ''bar''|}) (VInt 3)), [''a'', ''b''])
   \<and> (\<exists>xs. complete ([(''a'', logged ''a'' (Inr (Val VNone)))]
                 @ (''b'', logged ''b'' (Inr (Seq2 (VSet {|''foo'', ''bar''|}) (VInt 3))))
                 # [(''c'', logged ''c'' (Inr (Val (VSet {|''baz''|}))))])
               ''f'' ''f'' 0 1 CtxNone []
             = (Inr (VTuple xs, VInt 3), [''a'', ''b''])
           \<and> sorted xs \<and> mset xs = elements (VSet {|''foo'', ''bar''|})
           \<and> distinct xs)"
proof -
  have h1: "all_empty (map snd [(''a'', logged ''a'' (Inr (Val VNone)))]) ''f'' ''f'' 0 1
       (ctx_or_empty CtxNone) None [] = Some (Some (VInt 1), [''a''])"
    by (simp add: logged_def)
  have h2: "logged ''b'' (Inr (Seq2 (VSet {|''foo'', ''bar''|}) (VInt 3))) ''f'' ''f'' 0 1
       (ctx_or_empty CtxNone) [''a'']
       = (Inr (Seq2 (VSet {|''foo'', ''bar''|}) (VInt 3)), [''a'', ''b''])"
    by (simp add: logged_def)
  have h3: "read_out ''f'' (Seq2 (VSet {|''foo'', ''bar''|}) (VInt 3))
       = Inr (VSet {|''foo'', ''bar''|}, VInt 3)"
    by simp
  have h4: "VSet {|''foo'', ''bar''|} \<noteq> VNone" by simp
  have h5: "py_len (VSet {|''foo'', ''bar''|}) = Inr 2"
    by (simp add: fcard.rep_eq)
  have h6: "(2::nat) \<noteq> 0" by simp
  note t = complete_first_nonempty
    [where ps = "[(''a'', logged ''a'' (Inr (Val VNone)))]" and prefix = "''f''"
       and line = "''f''" and b = 0 and e = 1 and ctx = CtxNone and w = "[]"
       and lp = "Some (VInt 1)" and ?w1.0 = "[''a'']"
       and p = "logged ''b'' (Inr (Seq2 (VSet {|''foo'', ''bar''|}) (VInt 3)))"
       and out = "Seq2 (VSet {|''foo'', ''bar''|}) (VInt 3)" and ?w2.0 = "[''a'', ''b'']"
       and res = "VSet {|''foo'', ''bar''|}" and lprefix = "VInt 3" and n = 2
       and name = "''b''" and qs = "[(''c'', logged ''c'' (Inr (Val (VSet {|''baz''|}))))]"]
  from t [OF h1 h2 h3 h4 h5 h6] h1 h2 show ?thesis by blast
qed

text \<open>
  The claim as the specification states it asks for candidates without duplicates.
  A provider that returns the list \<open>['a', 'a']\<close> with replacement length 1 gets both
  copies back: \<open>tuple(sorted(res))\<close> removes nothing.
\<close>

theorem complete_duplicates_counterexample:
  "complete [(''p'', logged ''p'' (Inr (Seq2 (VList [''a'', ''a'']) (VInt 1))))]
      ''a'' ''a'' 0 1 CtxNone []
     = (Inr (VTuple [''a'', ''a''], VInt 1), [''p''])
   \<and> \<not> distinct [''a'', ''a'']"
  by (simp add: complete_def logged_def)

subsection \<open>The abort signal\<close>

text \<open>
  C2. When the providers before \<open>p\<close> all give nothing and \<open>p\<close> raises \<open>StopIteration\<close>,
  \<open>complete\<close> returns the empty set and the length of \<open>prefix\<close>; the world is the one
  that \<open>p\<close> left, whatever the providers registered after \<open>p\<close> are.
\<close>

theorem complete_abort:
  assumes "all_empty (map snd ps) prefix line b e (ctx_or_empty ctx) None w = Some (lp, w1)"
    and "p prefix line b e (ctx_or_empty ctx) w1 = (Inl StopIteration, w2)"
  shows "complete (ps @ (name, p) # qs) prefix line b e ctx w =
           (Inr (VSet {||}, VInt (int (length prefix))), w2)"
  using assms(2) by (simp add: complete_skip [OF assms(1)])

theorem complete_abort_witness:
  "all_empty (map snd [(''a'', logged ''a'' (Inr (Seq2 (VSet {||}) (VInt 7))))])
       ''ab'' ''ab'' 0 2 (ctx_or_empty CtxNone) None [] = Some (Some (VInt 7), [''a''])
   \<and> logged ''b'' (Inl StopIteration) ''ab'' ''ab'' 0 2 (ctx_or_empty CtxNone) [''a'']
       = (Inl StopIteration, [''a'', ''b''])
   \<and> complete ([(''a'', logged ''a'' (Inr (Seq2 (VSet {||}) (VInt 7))))]
         @ (''b'', logged ''b'' (Inl StopIteration))
         # [(''c'', logged ''c'' (Inr (Val (VSet {|''abc''|}))))])
       ''ab'' ''ab'' 0 2 CtxNone []
     = (Inr (VSet {||}, VInt 2), [''a'', ''b''])"
proof -
  have h1: "all_empty (map snd [(''a'', logged ''a'' (Inr (Seq2 (VSet {||}) (VInt 7))))])
       ''ab'' ''ab'' 0 2 (ctx_or_empty CtxNone) None [] = Some (Some (VInt 7), [''a''])"
    by (simp add: logged_def)
  have h2: "logged ''b'' (Inl StopIteration) ''ab'' ''ab'' 0 2 (ctx_or_empty CtxNone) [''a'']
       = (Inl StopIteration, [''a'', ''b''])"
    by (simp add: logged_def)
  note t = complete_abort
    [where ps = "[(''a'', logged ''a'' (Inr (Seq2 (VSet {||}) (VInt 7))))]"
       and prefix = "''ab''" and line = "''ab''" and b = 0 and e = 2 and ctx = CtxNone
       and w = "[]" and lp = "Some (VInt 7)" and ?w1.0 = "[''a'']"
       and p = "logged ''b'' (Inl StopIteration)" and ?w2.0 = "[''a'', ''b'']"
       and name = "''b''" and qs = "[(''c'', logged ''c'' (Inr (Val (VSet {|''abc''|}))))]"]
  from t [OF h1 h2] h1 h2 show ?thesis by simp
qed

subsection \<open>Other exceptions of a provider\<close>

text \<open>
  C10. When the providers before \<open>p\<close> all give nothing and \<open>p\<close> raises an exception
  \<open>x\<close> other than \<open>StopIteration\<close>, \<open>complete\<close> raises \<open>x\<close> and returns no result; the
  world is the one that \<open>p\<close> left, whatever the providers registered after \<open>p\<close> are.
\<close>

theorem complete_propagates:
  assumes "all_empty (map snd ps) prefix line b e (ctx_or_empty ctx) None w = Some (lp, w1)"
    and "p prefix line b e (ctx_or_empty ctx) w1 = (Inl x, w2)"
    and "x \<noteq> StopIteration"
  shows "complete (ps @ (name, p) # qs) prefix line b e ctx w = (Inl x, w2)"
  using assms(2,3) by (simp add: complete_skip [OF assms(1)])

theorem complete_propagates_witness:
  "all_empty (map snd [(''a'', logged ''a'' (Inr (Val (VSet {||}))))])
       ''ab'' ''ab'' 0 2 (ctx_or_empty CtxNone) None [] = Some (Some (VInt 2), [''a''])
   \<and> logged ''b'' (Inl (OtherError ''OSError'')) ''ab'' ''ab'' 0 2 (ctx_or_empty CtxNone) [''a'']
       = (Inl (OtherError ''OSError''), [''a'', ''b''])
   \<and> OtherError ''OSError'' \<noteq> StopIteration
   \<and> complete ([(''a'', logged ''a'' (Inr (Val (VSet {||}))))]
         @ (''b'', logged ''b'' (Inl (OtherError ''OSError'')))
         # [(''c'', logged ''c'' (Inr (Val (VSet {|''abc''|}))))])
       ''ab'' ''ab'' 0 2 CtxNone []
     = (Inl (OtherError ''OSError''), [''a'', ''b''])"
proof -
  have h1: "all_empty (map snd [(''a'', logged ''a'' (Inr (Val (VSet {||}))))])
       ''ab'' ''ab'' 0 2 (ctx_or_empty CtxNone) None [] = Some (Some (VInt 2), [''a''])"
    by (simp add: logged_def fcard.rep_eq)
  have h2: "logged ''b'' (Inl (OtherError ''OSError'')) ''ab'' ''ab'' 0 2
       (ctx_or_empty CtxNone) [''a''] = (Inl (OtherError ''OSError''), [''a'', ''b''])"
    by (simp add: logged_def)
  have h3: "OtherError ''OSError'' \<noteq> StopIteration" by simp
  note t = complete_propagates
    [where ps = "[(''a'', logged ''a'' (Inr (Val (VSet {||}))))]"
       and prefix = "''ab''" and line = "''ab''" and b = 0 and e = 2 and ctx = CtxNone
       and w = "[]" and lp = "Some (VInt 2)" and ?w1.0 = "[''a'']"
       and p = "logged ''b'' (Inl (OtherError ''OSError''))" and x = "OtherError ''OSError''"
       and ?w2.0 = "[''a'', ''b'']"
       and name = "''b''" and qs = "[(''c'', logged ''c'' (Inr (Val (VSet {|''abc''|}))))]"]
  from t [OF h1 h2 h3] h1 h2 h3 show ?thesis by simp
qed

subsection \<open>When \<open>complete\<close> returns\<close>





subsection \<open>The registry without providers\<close>

text \<open>
  C4 at the empty registry: the loop body never runs, \<open>lprefix\<close> is unbound at the last
  line, and \<open>complete\<close> raises \<open>UnboundLocalError\<close> instead of returning the empty set
  with the length of \<open>prefix\<close>.
\<close>

theorem complete_empty_registry:
  "complete [] ''ab'' ''ab'' 0 2 CtxNone w = (Inl UnboundLocalError, w)"
  by (simp add: complete_def)


subsection \<open>How the return value of a provider is read\<close>

text \<open>
  C5, as the code has it. Let the providers before \<open>p\<close> all give nothing and let \<open>p\<close>
  return \<open>out\<close>. When \<open>out\<close> is a two-element sequence \<open>(res, lprefix)\<close>, \<open>complete\<close> takes
  \<open>res\<close> as the candidates and \<open>lprefix\<close> as the replacement length. When \<open>out\<close> is a set
  of candidates or \<open>None\<close>, \<open>complete\<close> takes \<open>out\<close> as the candidates and the length of
  \<open>prefix\<close> as the replacement length. In both cases candidates that are not empty are
  returned at once, sorted, and candidates that are empty or \<open>None\<close> give the empty set
  when \<open>p\<close> is the last provider. A bare sequence of candidates is not taken as the
  candidates. A bare list or tuple \<open>[a, b]\<close> is unpacked: the candidates are the
  characters of \<open>a\<close> and the replacement length is \<open>b\<close>; a bare string of two characters
  gives the first as the only candidate and the second as the replacement length; a
  bare list, tuple or string of any other length raises \<open>ValueError\<close>.
\<close>

theorem complete_reads_out:
  assumes "all_empty (map snd ps) prefix line b e (ctx_or_empty ctx) None w = Some (lp, w1)"
    and "p prefix line b e (ctx_or_empty ctx) w1 = (Inr out, w2)"
  shows "(out = Seq2 res lprefix \<and> res \<noteq> VNone \<and> py_len res = Inr n \<and> n \<noteq> 0
            \<and> py_sorted res = Inr xs
          \<longrightarrow> complete (ps @ (name, p) # qs) prefix line b e ctx w
                = (Inr (VTuple xs, lprefix), w2))
       \<and> (out = Seq2 res lprefix \<and> (res = VNone \<or> py_len res = Inr 0)
          \<longrightarrow> complete (ps @ [(name, p)]) prefix line b e ctx w
                = (Inr (VSet {||}, lprefix), w2))
       \<and> (out = Val (VSet S) \<and> S \<noteq> {||}
          \<longrightarrow> complete (ps @ (name, p) # qs) prefix line b e ctx w
                = (Inr (VTuple (sorted_list_of_fset S), VInt (int (length prefix))), w2))
       \<and> (out = Val VNone \<or> out = Val (VSet {||})
          \<longrightarrow> complete (ps @ [(name, p)]) prefix line b e ctx w
                = (Inr (VSet {||}, VInt (int (length prefix))), w2))
       \<and> ((out = Val (VList [c # cs, d]) \<or> out = Val (VTuple [c # cs, d]))
          \<longrightarrow> complete (ps @ (name, p) # qs) prefix line b e ctx w
                = (Inr (VTuple (map (\<lambda>x. [x]) (sort (c # cs))), VStr d), w2))
       \<and> ((out = Val (VList [[], d]) \<or> out = Val (VTuple [[], d]))
          \<longrightarrow> complete (ps @ [(name, p)]) prefix line b e ctx w
                = (Inr (VSet {||}, VStr d), w2))
       \<and> (out = Val (VStr [x, y])
          \<longrightarrow> complete (ps @ (name, p) # qs) prefix line b e ctx w
                = (Inr (VTuple [[x]], VStr [y]), w2))
       \<and> ((out = Val (VList ys) \<or> out = Val (VTuple ys)) \<and> length ys \<noteq> 2
          \<longrightarrow> complete (ps @ (name, p) # qs) prefix line b e ctx w = (Inl ValueError, w2))
       \<and> (out = Val (VStr s) \<and> length s \<noteq> 2
          \<longrightarrow> complete (ps @ (name, p) # qs) prefix line b e ctx w = (Inl ValueError, w2))"
proof -
  have more: "complete (ps @ (name, p) # qs) prefix line b e ctx w =
          complete_loop (p # map snd qs) prefix line b e (ctx_or_empty ctx) lp w1"
    using assms(1) by (rule complete_skip)
  have last: "complete (ps @ [(name, p)]) prefix line b e ctx w =
          complete_loop [p] prefix line b e (ctx_or_empty ctx) lp w1"
    using complete_skip [OF assms(1), of name p "[]"] by simp
  have c1: "out = Seq2 res lprefix \<and> res \<noteq> VNone \<and> py_len res = Inr n \<and> n \<noteq> 0
            \<and> py_sorted res = Inr xs
          \<longrightarrow> complete (ps @ (name, p) # qs) prefix line b e ctx w
                = (Inr (VTuple xs, lprefix), w2)"
    using assms(2) by (simp add: more)
  have c2: "out = Seq2 res lprefix \<and> (res = VNone \<or> py_len res = Inr 0)
          \<longrightarrow> complete (ps @ [(name, p)]) prefix line b e ctx w
                = (Inr (VSet {||}, lprefix), w2)"
    using assms(2) by (auto simp: last)
  have c3: "out = Val (VSet S) \<and> S \<noteq> {||}
          \<longrightarrow> complete (ps @ (name, p) # qs) prefix line b e ctx w
                = (Inr (VTuple (sorted_list_of_fset S), VInt (int (length prefix))), w2)"
    using assms(2) by (auto simp: more fcard_fempty)
  have c4: "out = Val VNone \<or> out = Val (VSet {||})
          \<longrightarrow> complete (ps @ [(name, p)]) prefix line b e ctx w
                = (Inr (VSet {||}, VInt (int (length prefix))), w2)"
    using assms(2) by (auto simp: last)
  have c5: "(out = Val (VList [c # cs, d]) \<or> out = Val (VTuple [c # cs, d]))
          \<longrightarrow> complete (ps @ (name, p) # qs) prefix line b e ctx w
                = (Inr (VTuple (map (\<lambda>x. [x]) (sort (c # cs))), VStr d), w2)"
    using assms(2) by (auto simp: more)
  have c6: "(out = Val (VList [[], d]) \<or> out = Val (VTuple [[], d]))
          \<longrightarrow> complete (ps @ [(name, p)]) prefix line b e ctx w
                = (Inr (VSet {||}, VStr d), w2)"
    using assms(2) by (auto simp: last)
  have c7: "out = Val (VStr [x, y])
          \<longrightarrow> complete (ps @ (name, p) # qs) prefix line b e ctx w
                = (Inr (VTuple [[x]], VStr [y]), w2)"
    using assms(2) by (auto simp: more)
  have c8: "(out = Val (VList ys) \<or> out = Val (VTuple ys)) \<and> length ys \<noteq> 2
          \<longrightarrow> complete (ps @ (name, p) # qs) prefix line b e ctx w = (Inl ValueError, w2)"
    using assms(2) by (auto simp: more two_of_length)
  have c9: "out = Val (VStr s) \<and> length s \<noteq> 2
          \<longrightarrow> complete (ps @ (name, p) # qs) prefix line b e ctx w = (Inl ValueError, w2)"
    using assms(2) by (auto simp: more two_of_length)
  from c1 c2 c3 c4 c5 c6 c7 c8 c9 show ?thesis by blast
qed

theorem complete_reads_out_witness:
  "all_empty (map snd [(''a'', logged ''a'' (Inr (Val VNone)))]) ''l'' ''l'' 0 1
       (ctx_or_empty CtxNone) None [] = Some (Some (VInt 1), [''a''])
   \<and> complete ([(''a'', logged ''a'' (Inr (Val VNone)))]
         @ (''b'', logged ''b'' (Inr (Seq2 (VSet {|''ls''|}) (VInt 5))))
         # [(''c'', logged ''c'' (Inl StopIteration))])
       ''l'' ''l'' 0 1 CtxNone []
     = (Inr (VTuple [''ls''], VInt 5), [''a'', ''b''])
   \<and> complete ([(''a'', logged ''a'' (Inr (Val VNone)))]
         @ (''b'', logged ''b'' (Inr (Val (VSet {|''ls''|}))))
         # [(''c'', logged ''c'' (Inl StopIteration))])
       ''l'' ''l'' 0 1 CtxNone []
     = (Inr (VTuple [''ls''], VInt 1), [''a'', ''b''])
   \<and> complete ([(''a'', logged ''a'' (Inr (Val VNone)))]
         @ (''b'', logged ''b'' (Inr (Val (VList [''ls'', ''cd'']))))
         # [(''c'', logged ''c'' (Inl StopIteration))])
       ''l'' ''l'' 0 1 CtxNone []
     = (Inr (VTuple [''l'', ''s''], VStr ''cd''), [''a'', ''b''])
   \<and> complete ([(''a'', logged ''a'' (Inr (Val VNone)))]
         @ (''b'', logged ''b'' (Inr (Val (VTuple [''ls'', ''cd'', ''cp'']))))
         # [(''c'', logged ''c'' (Inl StopIteration))])
       ''l'' ''l'' 0 1 CtxNone []
     = (Inl ValueError, [''a'', ''b''])
   \<and> complete ([(''a'', logged ''a'' (Inr (Val VNone)))]
         @ (''b'', logged ''b'' (Inr (Val (VStr ''ls''))))
         # [(''c'', logged ''c'' (Inl StopIteration))])
       ''l'' ''l'' 0 1 CtxNone []
     = (Inr (VTuple [''l''], VStr ''s''), [''a'', ''b''])"
proof -
  have h1: "all_empty (map snd [(''a'', logged ''a'' (Inr (Val VNone)))]) ''l'' ''l'' 0 1
       (ctx_or_empty CtxNone) None [] = Some (Some (VInt 1), [''a''])"
    by (simp add: logged_def)
  have len: "py_len (VSet {|''ls''|}) = Inr 1"
    by (simp add: fcard.rep_eq)
  have srt: "py_sorted (VSet {|''ls''|}) = Inr [''ls'']" "sorted_list_of_fset {|''ls''|} = [''ls'']"
    by (simp_all add: sorted_list_of_fset.rep_eq)
  have p_pair: "logged ''b'' (Inr (Seq2 (VSet {|''ls''|}) (VInt 5))) ''l'' ''l'' 0 1
       (ctx_or_empty CtxNone) [''a'']
       = (Inr (Seq2 (VSet {|''ls''|}) (VInt 5)), [''a'', ''b''])"
    by (simp add: logged_def)
  note t_pair = complete_reads_out
    [where ps = "[(''a'', logged ''a'' (Inr (Val VNone)))]" and prefix = "''l''"
       and line = "''l''" and b = 0 and e = 1 and ctx = CtxNone and w = "[]"
       and lp = "Some (VInt 1)" and ?w1.0 = "[''a'']"
       and p = "logged ''b'' (Inr (Seq2 (VSet {|''ls''|}) (VInt 5)))"
       and out = "Seq2 (VSet {|''ls''|}) (VInt 5)" and ?w2.0 = "[''a'', ''b'']"
       and res = "VSet {|''ls''|}" and lprefix = "VInt 5" and n = 1 and xs = "[''ls'']"
       and name = "''b''" and qs = "[(''c'', logged ''c'' (Inl StopIteration))]",
     OF h1 p_pair]
  have r_pair: "complete ([(''a'', logged ''a'' (Inr (Val VNone)))]
         @ (''b'', logged ''b'' (Inr (Seq2 (VSet {|''ls''|}) (VInt 5))))
         # [(''c'', logged ''c'' (Inl StopIteration))])
       ''l'' ''l'' 0 1 CtxNone []
     = (Inr (VTuple [''ls''], VInt 5), [''a'', ''b''])"
    using t_pair len srt by simp
  have p_bset: "logged ''b'' (Inr (Val (VSet {|''ls''|}))) ''l'' ''l'' 0 1
       (ctx_or_empty CtxNone) [''a'']
       = (Inr (Val (VSet {|''ls''|})), [''a'', ''b''])"
    by (simp add: logged_def)
  note t_bset = complete_reads_out
    [where ps = "[(''a'', logged ''a'' (Inr (Val VNone)))]" and prefix = "''l''"
       and line = "''l''" and b = 0 and e = 1 and ctx = CtxNone and w = "[]"
       and lp = "Some (VInt 1)" and ?w1.0 = "[''a'']"
       and p = "logged ''b'' (Inr (Val (VSet {|''ls''|})))"
       and out = "Val (VSet {|''ls''|})" and ?w2.0 = "[''a'', ''b'']"
       and S = "{|''ls''|}"
       and name = "''b''" and qs = "[(''c'', logged ''c'' (Inl StopIteration))]",
     OF h1 p_bset]
  have r_bset: "complete ([(''a'', logged ''a'' (Inr (Val VNone)))]
         @ (''b'', logged ''b'' (Inr (Val (VSet {|''ls''|}))))
         # [(''c'', logged ''c'' (Inl StopIteration))])
       ''l'' ''l'' 0 1 CtxNone []
     = (Inr (VTuple [''ls''], VInt 1), [''a'', ''b''])"
    using t_bset len srt by simp
  have p_blist: "logged ''b'' (Inr (Val (VList [''ls'', ''cd'']))) ''l'' ''l'' 0 1
       (ctx_or_empty CtxNone) [''a'']
       = (Inr (Val (VList [''ls'', ''cd''])), [''a'', ''b''])"
    by (simp add: logged_def)
  note t_blist = complete_reads_out
    [where ps = "[(''a'', logged ''a'' (Inr (Val VNone)))]" and prefix = "''l''"
       and line = "''l''" and b = 0 and e = 1 and ctx = CtxNone and w = "[]"
       and lp = "Some (VInt 1)" and ?w1.0 = "[''a'']"
       and p = "logged ''b'' (Inr (Val (VList [''ls'', ''cd''])))"
       and out = "Val (VList [''ls'', ''cd''])" and ?w2.0 = "[''a'', ''b'']"
       and c = "CHR ''l''" and cs = "''s''" and d = "''cd''"
       and name = "''b''" and qs = "[(''c'', logged ''c'' (Inl StopIteration))]",
     OF h1 p_blist]
  have r_blist: "complete ([(''a'', logged ''a'' (Inr (Val VNone)))]
         @ (''b'', logged ''b'' (Inr (Val (VList [''ls'', ''cd'']))))
         # [(''c'', logged ''c'' (Inl StopIteration))])
       ''l'' ''l'' 0 1 CtxNone []
     = (Inr (VTuple [''l'', ''s''], VStr ''cd''), [''a'', ''b''])"
    using t_blist len srt by simp
  have p_btuple: "logged ''b'' (Inr (Val (VTuple [''ls'', ''cd'', ''cp'']))) ''l'' ''l'' 0 1
       (ctx_or_empty CtxNone) [''a'']
       = (Inr (Val (VTuple [''ls'', ''cd'', ''cp''])), [''a'', ''b''])"
    by (simp add: logged_def)
  note t_btuple = complete_reads_out
    [where ps = "[(''a'', logged ''a'' (Inr (Val VNone)))]" and prefix = "''l''"
       and line = "''l''" and b = 0 and e = 1 and ctx = CtxNone and w = "[]"
       and lp = "Some (VInt 1)" and ?w1.0 = "[''a'']"
       and p = "logged ''b'' (Inr (Val (VTuple [''ls'', ''cd'', ''cp''])))"
       and out = "Val (VTuple [''ls'', ''cd'', ''cp''])" and ?w2.0 = "[''a'', ''b'']"
       and ys = "[''ls'', ''cd'', ''cp'']"
       and name = "''b''" and qs = "[(''c'', logged ''c'' (Inl StopIteration))]",
     OF h1 p_btuple]
  have r_btuple: "complete ([(''a'', logged ''a'' (Inr (Val VNone)))]
         @ (''b'', logged ''b'' (Inr (Val (VTuple [''ls'', ''cd'', ''cp'']))))
         # [(''c'', logged ''c'' (Inl StopIteration))])
       ''l'' ''l'' 0 1 CtxNone []
     = (Inl ValueError, [''a'', ''b''])"
    using t_btuple len srt by simp
  have p_bstr: "logged ''b'' (Inr (Val (VStr ''ls''))) ''l'' ''l'' 0 1
       (ctx_or_empty CtxNone) [''a'']
       = (Inr (Val (VStr ''ls'')), [''a'', ''b''])"
    by (simp add: logged_def)
  note t_bstr = complete_reads_out
    [where ps = "[(''a'', logged ''a'' (Inr (Val VNone)))]" and prefix = "''l''"
       and line = "''l''" and b = 0 and e = 1 and ctx = CtxNone and w = "[]"
       and lp = "Some (VInt 1)" and ?w1.0 = "[''a'']"
       and p = "logged ''b'' (Inr (Val (VStr ''ls'')))"
       and out = "Val (VStr ''ls'')" and ?w2.0 = "[''a'', ''b'']"
       and x = "CHR ''l''" and y = "CHR ''s''"
       and name = "''b''" and qs = "[(''c'', logged ''c'' (Inl StopIteration))]",
     OF h1 p_bstr]
  have r_bstr: "complete ([(''a'', logged ''a'' (Inr (Val VNone)))]
         @ (''b'', logged ''b'' (Inr (Val (VStr ''ls''))))
         # [(''c'', logged ''c'' (Inl StopIteration))])
       ''l'' ''l'' 0 1 CtxNone []
     = (Inr (VTuple [''l''], VStr ''s''), [''a'', ''b''])"
    using t_bstr len srt by simp
  from h1 r_pair r_bset r_blist r_btuple r_bstr show ?thesis by blast
qed

text \<open>
  The claim as the specification states it takes every bare collection of candidates as
  the candidates. A bare list is a sequence, so the code unpacks it: the list
  \<open>['foo', 'bar']\<close> is read as the candidates \<open>'foo'\<close> with replacement length \<open>'bar'\<close>,
  and a list of three candidates raises \<open>ValueError\<close>.
\<close>

theorem complete_bare_list_counterexample:
  "complete [(''p'', logged ''p'' (Inr (Val (VList [''foo'', ''bar'']))))]
      ''fo'' ''fo'' 0 2 CtxNone []
     = (Inr (VTuple [''f'', ''o'', ''o''], VStr ''bar''), [''p''])
   \<and> complete [(''p'', logged ''p'' (Inr (Val (VList [''foo'', ''bar'', ''baz'']))))]
      ''fo'' ''fo'' 0 2 CtxNone []
     = (Inl ValueError, [''p''])"
  by (simp add: complete_def logged_def)

section \<open>Properties of locations and of the parser\<close>

lemma Location_str_format:
  "Location_str \<lparr>fname = f, lineno = n, column = None\<rparr> = f @ '':'' @ show_int n"
  "Location_str \<lparr>fname = f, lineno = n, column = Some c\<rparr>
     = f @ '':'' @ show_int n @ '':'' @ show_int c"
  by (simp_all add: Location_str_def)

lemma Location_str_example:
  "Location_str \<lparr>fname = ''f.xsh'', lineno = 12, column = Some 305\<rparr> = ''f.xsh:12:305''"
  by (simp add: Location_str_def show_int_def)

text \<open>
  C6 on the code: \<open>Location(f, n, c)\<close> builds no value. The constructor reads the name
  \<open>line\<close>, which is not bound, and raises \<open>NameError\<close> for every file name, line and
  column.
\<close>

theorem Location_init_raises:
  "Location_init f n c = Inl NameError"
  by (simp add: Location_init_def)

lemma parse_error_format:
  "parse_error (AStr msg) (ALoc loc) = SyntaxError (Location_str loc @ '': '' @ msg)"
  by (simp add: parse_error_def)

lemma p_error_eof:
  "p_error token_col P None = SyntaxError '': no further code''"
  by (simp add: p_error_def parse_error_def)

text \<open>
  C7 on the code: when the engine reports an offending token, \<open>p_error\<close> raises no
  \<open>SyntaxError\<close>, and neither does the error callback of the lexer. Building the
  location fails first, with \<open>AttributeError\<close> when the lexer has no attribute \<open>fname\<close>
  and with the \<open>NameError\<close> of \<open>Location\<close> otherwise.
\<close>

theorem p_error_token_raises:
  "p_error token_col P (Some t) =
     (case lexer_fname (lexer P) of None \<Rightarrow> AttributeError | Some f \<Rightarrow> NameError)
   \<and> (\<forall>text. p_error token_col P (Some t) \<noteq> SyntaxError text)
   \<and> lexer_errfunc P msg line col =
     (case lexer_fname (lexer P) of None \<Rightarrow> AttributeError | Some f \<Rightarrow> NameError)
   \<and> (\<forall>text. lexer_errfunc P msg line col \<noteq> SyntaxError text)"
  by (simp add: p_error_def lexer_errfunc_def currloc_def Location_init_def
      split: option.splits)

lemma parse_unfold:
  "parse engines P s filename d =
     (case engines ''cparser'' of
        None \<Rightarrow> (Inl AttributeError, parse_reset P filename)
      | Some cparser \<Rightarrow> cparser s d (parse_reset P filename))"
  by (simp add: parse_def Let_def)

lemma parse_reset_scope_stack:
  "parse_reset (P\<lparr>scope_stack := ss\<rparr>) filename = parse_reset P filename"
  by (simp add: parse_reset_def)

lemma parse_reset_fields:
  "scope_stack (parse_reset P filename) = [Map.empty]"
  "lexer_filename (lexer (parse_reset P filename)) = Some filename"
  "lexer_lineno (lexer (parse_reset P filename)) = Some 0"
  "last_yielded_token (parse_reset P filename) = None"
  by (simp_all add: parse_reset_def)

text \<open>
  C8. Whatever \<open>_scope_stack\<close> holds when \<open>parse\<close> is called, the call behaves as on any
  other stack, so a second call sees nothing that a first call left there: the engine,
  when there is one, is started on a state whose scope stack is one empty dictionary,
  with the lexer's \<open>filename\<close> set to the given name and its \<open>lineno\<close> set to 0.
\<close>

theorem parse_scope_isolation:
  "parse engines (P\<lparr>scope_stack := ss\<rparr>) s filename d = parse engines P s filename d
   \<and> parse engines (snd (parse engines P s1 filename1 d1 :: (exn + 'tree) \<times> parser_state))
         s filename d
       = (parse engines ((snd (parse engines P s1 filename1 d1
                                :: (exn + 'tree) \<times> parser_state))
                           \<lparr>scope_stack := [Map.empty]\<rparr>) s filename d
          :: (exn + 'tree) \<times> parser_state)
   \<and> scope_stack (parse_reset P filename) = [Map.empty]
   \<and> lexer_filename (lexer (parse_reset P filename)) = Some filename
   \<and> lexer_lineno (lexer (parse_reset P filename)) = Some 0
   \<and> parse engines P s filename d =
       (case engines ''cparser'' of
          None \<Rightarrow> (Inl AttributeError, parse_reset P filename)
        | Some cparser \<Rightarrow> cparser s d (parse_reset P filename))"
  by (simp add: parse_unfold parse_reset_scope_stack parse_reset_fields split: option.split)

lemma precedence_order:
  "map fst precedence = replicate 11 ''left''"
  "precedence ! 8 = (''left'', [''PLUS'', ''MINUS''])"
  "precedence ! 9 = (''left'', [''TIMES'', ''DIVIDE'', ''MOD''])"
  by (simp_all add: precedence_def eval_nat_numeral)

text \<open>
  C9 on the code: a \<open>Parser\<close> as \<open>__init__\<close> builds it holds its engine under the
  attribute \<open>parser\<close>, and \<open>parse\<close> reads the attribute \<open>cparser\<close>. Every call of \<open>parse\<close>
  raises \<open>AttributeError\<close> after the four assignments, for every input, so no expression
  is parsed and none is grouped by the precedence table.
\<close>

theorem parse_after_init_raises:
  "parse (init_engines eng) P s filename d = (Inl AttributeError, parse_reset P filename)"
  by (simp add: parse_unfold init_engines_def)

end
